theory Spec2Isabelle
  imports Complex_Main "HOL-Library.AList"
begin

section \<open>Python values, documents and exceptions\<close>

text \<open>
  The values that occur in the documents and keyword arguments of \<^verbatim>\<open>main.py\<close>.
  A Python \<^verbatim>\<open>float\<close> is carried as a rational: the program only compares it with 0.
  A \<^verbatim>\<open>datetime\<close> is a point on a clock counted in ticks. An \<^verbatim>\<open>ObjectId\<close> is the
  identifier the store assigns to an inserted document.
\<close>

datatype pyval =
    PNone
  | PBool bool
  | PInt int
  | PFloat rat
  | PStr string
  | PDatetime nat
  | PList "pyval list"
  | PObjectId nat

text \<open>A \<^verbatim>\<open>dict\<close> with string keys, in insertion order. \<open>map_of\<close> is \<^verbatim>\<open>d.get(k)\<close>,
  \<open>AList.update\<close> is \<^verbatim>\<open>d[k] = v\<close> and \<open>AList.delete\<close> is \<^verbatim>\<open>d.pop(k, None)\<close>.\<close>

type_synonym dict = "(string \<times> pyval) list"

text \<open>The exceptions that can be raised inside the handlers; each carries its message,
  which is what \<^verbatim>\<open>str(e)\<close> returns. \<open>ValidationError\<close> carries the offending field.\<close>

datatype exn =
    ValidationError string
  | TypeError string
  | StoreError string
  | Exception string

fun exn_str :: "exn \<Rightarrow> string" where
  "exn_str (ValidationError m) = m"
| "exn_str (TypeError m) = m"
| "exn_str (StoreError m) = m"
| "exn_str (Exception m) = m"

text \<open>\<^verbatim>\<open>raise HTTPException(status_code=..., detail=...)\<close>\<close>

datatype http_error = HTTPException int string

text \<open>Python truthiness, as used by \<^verbatim>\<open>if d.get("_id")\<close>.\<close>

fun truthy :: "pyval \<Rightarrow> bool" where
  "truthy PNone = False"
| "truthy (PBool b) = b"
| "truthy (PInt i) = (i \<noteq> 0)"
| "truthy (PFloat r) = (r \<noteq> 0)"
| "truthy (PStr s) = (s \<noteq> [])"
| "truthy (PDatetime t) = True"
| "truthy (PList xs) = (xs \<noteq> [])"
| "truthy (PObjectId n) = True"

text \<open>Python's slice \<^verbatim>\<open>xs[:n]\<close>: a negative \<open>n\<close> counts from the end.\<close>

definition slice_to :: "int \<Rightarrow> 'a list \<Rightarrow> 'a list" where
  "slice_to n xs = (if 0 \<le> n then take (nat n) xs else take (length xs - nat (- n)) xs)"

section \<open>Library behaviour taken as a parameter\<close>

text \<open>
  The field validators of pydantic and the builtin \<^verbatim>\<open>str\<close> are library code. They are
  parameters of the model: each validator either accepts a value, returning the typed
  value, or rejects it. Every theorem below holds for all of them.
\<close>

record pylib =
  conv_str :: "pyval \<Rightarrow> string option"
  conv_int :: "pyval \<Rightarrow> int option"
  conv_float :: "pyval \<Rightarrow> rat option"
  conv_datetime :: "pyval \<Rightarrow> nat option"
  conv_url :: "pyval \<Rightarrow> string option"
  conv_email :: "pyval \<Rightarrow> string option"
  conv_str_list :: "pyval \<Rightarrow> string list option"
  str_of :: "pyval \<Rightarrow> string"

section \<open>The document store and the process state\<close>

datatype store_op = OpCreateIndex | OpCount | OpInsert | OpFind

text \<open>
  The state of a connected document store: the documents of each named collection, the
  indexes created so far, the next identifier to assign, and for each operation and
  collection whether the store fails there (with the error message).
\<close>

record store =
  colls :: "string \<Rightarrow> dict list"
  indexes :: "(string \<times> (string \<times> int) list) list"
  next_id :: nat
  faults :: "store_op \<Rightarrow> string \<Rightarrow> string option"

text \<open>The calls \<^verbatim>\<open>main.py\<close> makes on the database module and on the handle \<^verbatim>\<open>db\<close>.\<close>

datatype call =
    CreateIndex string "(string \<times> int) list"
  | CountDocuments string dict
  | CreateDocument string dict
  | GetDocuments string dict "int option"

text \<open>
  The state a handler runs in: the global \<^verbatim>\<open>db\<close> (\<open>None\<close> when the store is not
  configured), the time at which the module was loaded (when \<^verbatim>\<open>SEED_METRICS\<close> was
  evaluated), the clock as the sequence of its readings with the number of readings taken so
  far, and the log of the calls made on the store.
\<close>

record world =
  db :: "store option"
  loaded_at :: nat
  clock :: "nat \<Rightarrow> nat"
  ticks :: nat
  trace :: "call list"

text \<open>\<^verbatim>\<open>datetime.now(timezone.utc)\<close>: the next reading of the clock.\<close>

definition datetime_now :: "world \<Rightarrow> nat \<times> world" where
  "datetime_now w = (clock w (ticks w), w\<lparr>ticks := Suc (ticks w)\<rparr>)"

definition log_call :: "call \<Rightarrow> world \<Rightarrow> world" where
  "log_call c w = w\<lparr>trace := trace w @ [c]\<rparr>"

definition not_configured :: exn where
  "not_configured = Exception ''Database is not configured. Set DATABASE_URL and DATABASE_NAME.''"

text \<open>A document matches a filter when it has every key of the filter with the same value.\<close>

definition matches :: "dict \<Rightarrow> dict \<Rightarrow> bool" where
  "matches flt d = list_all (\<lambda>kv. map_of d (fst kv) = Some (snd kv)) flt"

text \<open>
  Modelled from the spec: the module \<^verbatim>\<open>database\<close> (\<^verbatim>\<open>create_document\<close>,
  \<^verbatim>\<open>get_documents\<close>) is imported by \<^verbatim>\<open>main.py\<close> and is not part of the sources. The
  unconfigured case is the stub of \<^verbatim>\<open>main.py\<close> (lines 12 to 16). \<open>create_document\<close>
  inserts one record and returns its identifier as a string; it fails when the store is
  unconfigured or when the insert raises.
\<close>

definition create_document :: "pylib \<Rightarrow> string \<Rightarrow> dict \<Rightarrow> world \<Rightarrow> (exn + string) \<times> world" where
  "create_document L c d w =
     (let w' = log_call (CreateDocument c d) w in
      case db w of
        None \<Rightarrow> (Inl not_configured, w')
      | Some s \<Rightarrow>
          (case faults s OpInsert c of
             Some msg \<Rightarrow> (Inl (StoreError msg), w')
           | None \<Rightarrow>
               (Inr (str_of L (PObjectId (next_id s))),
                w'\<lparr>db := Some (s\<lparr>colls := (colls s)(c := colls s c @ [(''_id'', PObjectId (next_id s)) # d]),
                                next_id := Suc (next_id s)\<rparr>)\<rparr>)))"

text \<open>
  Modelled from the spec: \<open>get_documents\<close> reads up to \<open>limit\<close> records matching the
  filter (the empty filter matches all; no limit reads all); a limit \<open>\<le> 0\<close> gives the
  empty result; it fails when the store is unconfigured or when the read raises.
\<close>

definition get_documents :: "string \<Rightarrow> dict \<Rightarrow> int option \<Rightarrow> world \<Rightarrow> (exn + dict list) \<times> world" where
  "get_documents c flt limit w =
     (let w' = log_call (GetDocuments c flt limit) w in
      case db w of
        None \<Rightarrow> (Inl not_configured, w')
      | Some s \<Rightarrow>
          (case faults s OpFind c of
             Some msg \<Rightarrow> (Inl (StoreError msg), w')
           | None \<Rightarrow>
               (Inr (case limit of
                       None \<Rightarrow> filter (matches flt) (colls s c)
                     | Some n \<Rightarrow> take (nat n) (filter (matches flt) (colls s c))), w')))"

text \<open>The two methods of the driver that \<^verbatim>\<open>main.py\<close> calls on \<^verbatim>\<open>db[collection]\<close>
  itself. On \<^verbatim>\<open>db = None\<close> the subscript raises a \<^verbatim>\<open>TypeError\<close>.\<close>

definition none_subscript :: exn where
  "none_subscript = TypeError ''NoneType object is not subscriptable''"

definition create_index :: "string \<Rightarrow> (string \<times> int) list \<Rightarrow> world \<Rightarrow> (exn + unit) \<times> world" where
  "create_index c keys w =
     (case db w of
        None \<Rightarrow> (Inl none_subscript, w)
      | Some s \<Rightarrow>
          (let w' = log_call (CreateIndex c keys) w in
           case faults s OpCreateIndex c of
             Some msg \<Rightarrow> (Inl (StoreError msg), w')
           | None \<Rightarrow>
               (Inr (), w'\<lparr>db := Some (s\<lparr>indexes := List.insert (c, keys) (indexes s)\<rparr>)\<rparr>)))"

definition count_documents :: "string \<Rightarrow> dict \<Rightarrow> world \<Rightarrow> (exn + nat) \<times> world" where
  "count_documents c flt w =
     (case db w of
        None \<Rightarrow> (Inl none_subscript, w)
      | Some s \<Rightarrow>
          (let w' = log_call (CountDocuments c flt) w in
           case faults s OpCount c of
             Some msg \<Rightarrow> (Inl (StoreError msg), w')
           | None \<Rightarrow> (Inr (length (filter (matches flt) (colls s c))), w')))"

section \<open>Pydantic schemas\<close>

record Metric =
  platform :: string
  followers :: int
  avg_views :: int
  engagement_rate :: rat
  last_updated :: nat

record Reel =
  reel_id :: "string option"
  title :: string
  thumbnail_url :: string
  video_url :: "string option"
  views :: int
  likes :: int
  hashtags :: "string list"
  posted_at :: nat

record ContactMessage =
  name :: string
  email :: string
  company :: "string option"
  message :: string
  topic :: "string option"

text \<open>A required field (\<^verbatim>\<open>Field(...)\<close> or no default): missing or rejected is a
  \<open>ValidationError\<close> naming the field.\<close>

definition required :: "(pyval \<Rightarrow> 'a option) \<Rightarrow> dict \<Rightarrow> string \<Rightarrow> exn + 'a" where
  "required conv d k =
     (case map_of d k of
        None \<Rightarrow> Inl (ValidationError k)
      | Some v \<Rightarrow> (case conv v of None \<Rightarrow> Inl (ValidationError k) | Some a \<Rightarrow> Inr a))"

text \<open>A field with a default value: the default is used when the key is absent.\<close>

definition defaulted :: "(pyval \<Rightarrow> 'a option) \<Rightarrow> 'a \<Rightarrow> dict \<Rightarrow> string \<Rightarrow> exn + 'a" where
  "defaulted conv dflt d k =
     (case map_of d k of
        None \<Rightarrow> Inr dflt
      | Some v \<Rightarrow> (case conv v of None \<Rightarrow> Inl (ValidationError k) | Some a \<Rightarrow> Inr a))"

text \<open>\<^verbatim>\<open>Optional[T] = None\<close>: absent or \<^verbatim>\<open>None\<close> gives \<open>None\<close>.\<close>

definition optional :: "(pyval \<Rightarrow> 'a option) \<Rightarrow> dict \<Rightarrow> string \<Rightarrow> exn + 'a option" where
  "optional conv d k =
     (case map_of d k of
        None \<Rightarrow> Inr None
      | Some PNone \<Rightarrow> Inr None
      | Some v \<Rightarrow> (case conv v of None \<Rightarrow> Inl (ValidationError k) | Some a \<Rightarrow> Inr (Some a)))"

text \<open>The constraint \<^verbatim>\<open>ge=0\<close>.\<close>

definition ge0 :: "string \<Rightarrow> exn + ('a::linordered_idom) \<Rightarrow> exn + 'a" where
  "ge0 k r = (case r of Inl e \<Rightarrow> Inl e | Inr a \<Rightarrow> (if 0 \<le> a then Inr a else Inl (ValidationError k)))"

text \<open>A timestamp with \<^verbatim>\<open>default_factory=lambda: datetime.now(timezone.utc)\<close>: the clock
  is read when the key is absent.\<close>

definition timestamp :: "pylib \<Rightarrow> dict \<Rightarrow> string \<Rightarrow> world \<Rightarrow> (exn + nat) \<times> world" where
  "timestamp L d k w =
     (case map_of d k of
        None \<Rightarrow> (let (t, w') = datetime_now w in (Inr t, w'))
      | Some v \<Rightarrow>
          (case conv_datetime L v of None \<Rightarrow> (Inl (ValidationError k), w) | Some t \<Rightarrow> (Inr t, w)))"

text \<open>Sequencing of two steps that may raise: the second runs on the value of the first.\<close>

definition and_then :: "exn + 'a \<Rightarrow> ('a \<Rightarrow> exn + 'b) \<Rightarrow> exn + 'b" where
  "and_then r f = (case r of Inl e \<Rightarrow> Inl e | Inr a \<Rightarrow> f a)"

text \<open>\<^verbatim>\<open>Metric(**d)\<close>. Keys that are not fields are ignored. The error names the first
  offending field in declaration order.\<close>

definition Metric_init :: "pylib \<Rightarrow> dict \<Rightarrow> world \<Rightarrow> (exn + Metric) \<times> world" where
  "Metric_init L d w =
     (let (ts, w') = timestamp L d ''last_updated'' w in
      (and_then (required (conv_str L) d ''platform'') (\<lambda>p.
       and_then (ge0 ''followers'' (required (conv_int L) d ''followers'')) (\<lambda>f.
       and_then (ge0 ''avg_views'' (required (conv_int L) d ''avg_views'')) (\<lambda>a.
       and_then (ge0 ''engagement_rate'' (required (conv_float L) d ''engagement_rate'')) (\<lambda>r.
       and_then ts (\<lambda>t.
         Inr \<lparr>platform = p, followers = f, avg_views = a, engagement_rate = r,
              last_updated = t\<rparr>))))),
       w'))"

text \<open>\<^verbatim>\<open>Reel(**d)\<close>\<close>

definition Reel_init :: "pylib \<Rightarrow> dict \<Rightarrow> world \<Rightarrow> (exn + Reel) \<times> world" where
  "Reel_init L d w =
     (let (ts, w') = timestamp L d ''posted_at'' w in
      (and_then (optional (conv_str L) d ''id'') (\<lambda>i.
       and_then (required (conv_str L) d ''title'') (\<lambda>tt.
       and_then (required (conv_url L) d ''thumbnail_url'') (\<lambda>th.
       and_then (optional (conv_url L) d ''video_url'') (\<lambda>vu.
       and_then (defaulted (conv_int L) 0 d ''views'') (\<lambda>vs.
       and_then (defaulted (conv_int L) 0 d ''likes'') (\<lambda>ls.
       and_then (defaulted (conv_str_list L) [] d ''hashtags'') (\<lambda>hs.
       and_then ts (\<lambda>t.
         Inr \<lparr>reel_id = i, title = tt, thumbnail_url = th, video_url = vu, views = vs,
              likes = ls, hashtags = hs, posted_at = t\<rparr>)))))))),
       w'))"

text \<open>\<^verbatim>\<open>ContactMessage(**body)\<close>, as the framework builds the handler's argument
  from the request body.\<close>

definition ContactMessage_init :: "pylib \<Rightarrow> dict \<Rightarrow> exn + ContactMessage" where
  "ContactMessage_init L d =
     and_then (required (conv_str L) d ''name'') (\<lambda>n.
     and_then (required (conv_email L) d ''email'') (\<lambda>em.
     and_then (optional (conv_str L) d ''company'') (\<lambda>co.
     and_then (required (conv_str L) d ''message'') (\<lambda>ms.
     and_then (optional (conv_str L) d ''topic'') (\<lambda>tp.
       Inr \<lparr>name = n, email = em, company = co, message = ms, topic = tp\<rparr>)))))"

definition opt_str :: "string option \<Rightarrow> pyval" where
  "opt_str x = (case x of None \<Rightarrow> PNone | Some s \<Rightarrow> PStr s)"

text \<open>\<^verbatim>\<open>payload.model_dump()\<close>\<close>

definition model_dump :: "ContactMessage \<Rightarrow> dict" where
  "model_dump p =
     [(''name'', PStr (name p)), (''email'', PStr (email p)), (''company'', opt_str (company p)),
      (''message'', PStr (message p)), (''topic'', opt_str (topic p))]"

section \<open>Constants and seed data\<close>

definition COL_METRIC :: string where "COL_METRIC = ''metric''"
definition COL_REEL :: string where "COL_REEL = ''reel''"
definition COL_CONTACT :: string where "COL_CONTACT = ''contactmessage''"

text \<open>\<^verbatim>\<open>SEED_METRICS\<close> is evaluated once, when the module is loaded: its timestamp is the
  time of loading, the argument.\<close>

definition SEED_METRICS :: "nat \<Rightarrow> dict list" where
  "SEED_METRICS t0 =
     [[(''platform'', PStr ''Instagram''),
       (''followers'', PInt 1250000),
       (''avg_views'', PInt 1500000),
       (''engagement_rate'', PFloat (87 / 10)),
       (''last_updated'', PDatetime t0)]]"

definition SEED_REELS :: "dict list" where
  "SEED_REELS =
     [[(''title'', PStr ''Pad work with a twist''),
       (''thumbnail_url'', PStr ''https://images.unsplash.com/photo-1605296867304-46d5465a13f1?q=80&w=1200&auto=format&fit=crop''),
       (''video_url'', PStr ''https://www.example.com/reel1.mp4''),
       (''views'', PInt 2300000),
       (''likes'', PInt 340000),
       (''hashtags'', PList [PStr ''#muaythai'', PStr ''#twerk'', PStr ''#funnytraining''])],
      [(''title'', PStr ''Elbows, knees & giggles''),
       (''thumbnail_url'', PStr ''https://images.unsplash.com/photo-1544916601-0aa3f82a1f2d?q=80&w=1200&auto=format&fit=crop''),
       (''video_url'', PStr ''https://www.example.com/reel2.mp4''),
       (''views'', PInt 1800000),
       (''likes'', PInt 280000),
       (''hashtags'', PList [PStr ''#muaythai'', PStr ''#reels'', PStr ''#songpengsawang''])]]"

section \<open>Startup: indexes and seeding\<close>

definition ensure_indexes :: "world \<Rightarrow> (exn + unit) \<times> world" where
  "ensure_indexes w =
     (case db w of
        None \<Rightarrow> (Inr (), w)
      | Some _ \<Rightarrow>
          (case create_index COL_REEL [(''posted_at'', 1)] w of
             (Inl e, w1) \<Rightarrow> (Inl e, w1)
           | (Inr _, w1) \<Rightarrow>
               (case create_index COL_REEL [(''views'', - 1)] w1 of
                  (Inl e, w2) \<Rightarrow> (Inl e, w2)
                | (Inr _, w2) \<Rightarrow> create_index COL_CONTACT [(''email'', 1)] w2)))"

text \<open>A \<^verbatim>\<open>for\<close> loop (or list comprehension) whose body may raise: the results are
  appended to \<open>items\<close> and the first exception ends the loop.\<close>

fun for_each :: "('a \<Rightarrow> world \<Rightarrow> (exn + 'b) \<times> world) \<Rightarrow> 'a list \<Rightarrow> 'b list \<Rightarrow> world \<Rightarrow> (exn + 'b list) \<times> world" where
  "for_each body [] items w = (Inr items, w)"
| "for_each body (x # xs) items w =
     (case body x w of
        (Inl e, w') \<Rightarrow> (Inl e, w')
      | (Inr y, w') \<Rightarrow> for_each body xs (items @ [y]) w')"

text \<open>One of the two statements of \<^verbatim>\<open>seed_data\<close>:
  \<^verbatim>\<open>if db[c].count_documents({}) == 0: for x in seeds: create_document(c, x)\<close>\<close>

definition seed_if_empty :: "pylib \<Rightarrow> string \<Rightarrow> dict list \<Rightarrow> world \<Rightarrow> (exn + unit) \<times> world" where
  "seed_if_empty L c seeds w =
     (case count_documents c [] w of
        (Inl e, w1) \<Rightarrow> (Inl e, w1)
      | (Inr n, w1) \<Rightarrow>
          (if n = 0
           then (case for_each (create_document L c) seeds [] w1 of
                   (Inl e, w2) \<Rightarrow> (Inl e, w2)
                 | (Inr _, w2) \<Rightarrow> (Inr (), w2))
           else (Inr (), w1)))"

definition seed_data :: "pylib \<Rightarrow> world \<Rightarrow> (exn + unit) \<times> world" where
  "seed_data L w =
     (case db w of
        None \<Rightarrow> (Inr (), w)
      | Some _ \<Rightarrow>
          (case seed_if_empty L COL_METRIC (SEED_METRICS (loaded_at w)) w of
             (Inl e, w1) \<Rightarrow> (Inl e, w1)
           | (Inr _, w1) \<Rightarrow> seed_if_empty L COL_REEL SEED_REELS w1))"

text \<open>\<^verbatim>\<open>try: ensure_indexes(); seed_data() except Exception: pass\<close>\<close>

definition on_startup :: "pylib \<Rightarrow> world \<Rightarrow> (exn + unit) \<times> world" where
  "on_startup L w =
     (case ensure_indexes w of
        (Inl e, w1) \<Rightarrow> (Inr (), w1)
      | (Inr _, w1) \<Rightarrow>
          (case seed_data L w1 of
             (Inl e, w2) \<Rightarrow> (Inr (), w2)
           | (Inr _, w2) \<Rightarrow> (Inr (), w2)))"

section \<open>Routes\<close>

text \<open>The \<^verbatim>\<open>except\<close> branch of \<^verbatim>\<open>get_metrics\<close>:
  \<^verbatim>\<open>[Metric(**m) for m in SEED_METRICS]\<close>\<close>

definition fallback_metrics :: "pylib \<Rightarrow> world \<Rightarrow> (exn + Metric list) \<times> world" where
  "fallback_metrics L w = for_each (Metric_init L) (SEED_METRICS (loaded_at w)) [] w"

text \<open>The body of the loop of \<^verbatim>\<open>get_metrics\<close>:
  \<^verbatim>\<open>d.pop("_id", None); items.append(Metric(**d))\<close>\<close>

definition metric_of_doc :: "pylib \<Rightarrow> dict \<Rightarrow> world \<Rightarrow> (exn + Metric) \<times> world" where
  "metric_of_doc L d w = Metric_init L (AList.delete ''_id'' d) w"

definition get_metrics :: "pylib \<Rightarrow> world \<Rightarrow> (exn + Metric list) \<times> world" where
  "get_metrics L w =
     (case get_documents COL_METRIC [] None w of
        (Inl e, w1) \<Rightarrow> fallback_metrics L w1
      | (Inr docs, w1) \<Rightarrow>
          (case for_each (metric_of_doc L) docs [] w1 of
             (Inl e, w2) \<Rightarrow> fallback_metrics L w2
           | (Inr items, w2) \<Rightarrow> (Inr items, w2)))"

text \<open>The \<^verbatim>\<open>except\<close> branch of \<^verbatim>\<open>get_reels\<close>:
  \<^verbatim>\<open>[Reel(**r) for r in SEED_REELS][:limit]\<close>\<close>

definition fallback_reels :: "pylib \<Rightarrow> int \<Rightarrow> world \<Rightarrow> (exn + Reel list) \<times> world" where
  "fallback_reels L limit w =
     (case for_each (Reel_init L) SEED_REELS [] w of
        (Inl e, w') \<Rightarrow> (Inl e, w')
      | (Inr rs, w') \<Rightarrow> (Inr (slice_to limit rs), w'))"

text \<open>The body of the loop of \<^verbatim>\<open>get_reels\<close>:
  \<^verbatim>\<open>rid = str(d.get("_id")) if d.get("_id") else None; d.pop("_id", None);
  items.append(Reel(id=rid, **d))\<close>. A document that has a key \<^verbatim>\<open>id\<close> of its own makes
  the call a \<^verbatim>\<open>TypeError\<close> (two values for one keyword).\<close>

definition reel_of_doc :: "pylib \<Rightarrow> dict \<Rightarrow> world \<Rightarrow> (exn + Reel) \<times> world" where
  "reel_of_doc L d w =
     (let rid = (case map_of d ''_id'' of
                   None \<Rightarrow> PNone
                 | Some v \<Rightarrow> (if truthy v then PStr (str_of L v) else PNone));
          d' = AList.delete ''_id'' d
      in if map_of d' ''id'' \<noteq> None
         then (Inl (TypeError ''got multiple values for keyword argument id''), w)
         else Reel_init L ((''id'', rid) # d') w)"

text \<open>\<^verbatim>\<open>async def get_reels(limit: int = 20)\<close>: the argument is \<open>None\<close> when the request
  has no \<^verbatim>\<open>limit\<close> parameter.\<close>

definition get_reels :: "pylib \<Rightarrow> int option \<Rightarrow> world \<Rightarrow> (exn + Reel list) \<times> world" where
  "get_reels L limit_arg w =
     (let limit = (case limit_arg of None \<Rightarrow> 20 | Some n \<Rightarrow> n) in
      case get_documents COL_REEL [] (Some (min limit 50)) w of
        (Inl e, w1) \<Rightarrow> fallback_reels L limit w1
      | (Inr docs, w1) \<Rightarrow>
          (case for_each (reel_of_doc L) docs [] w1 of
             (Inl e, w2) \<Rightarrow> fallback_reels L limit w2
           | (Inr items, w2) \<Rightarrow> (Inr items, w2)))"

text \<open>The response \<^verbatim>\<open>{"status": ..., "id": ...}\<close> of \<^verbatim>\<open>submit_contact\<close>.\<close>

record contact_response =
  status :: string
  doc_id :: "string option"

definition submit_contact :: "pylib \<Rightarrow> ContactMessage \<Rightarrow> world \<Rightarrow> (http_error + contact_response) \<times> world" where
  "submit_contact L payload w =
     (let (now, w1) = datetime_now w;
          data = AList.update ''received_at'' (PDatetime now) (model_dump payload)
      in case db w1 of
           Some _ \<Rightarrow>
             (case create_document L COL_CONTACT data w1 of
                (Inl e, w2) \<Rightarrow> (Inl (HTTPException 500 (exn_str e)), w2)
              | (Inr i, w2) \<Rightarrow> (Inr \<lparr>status = ''ok'', doc_id = Some i\<rparr>, w2))
         | None \<Rightarrow> (Inr \<lparr>status = ''ok'', doc_id = None\<rparr>, w1))"

text \<open>\<^verbatim>\<open>POST /contact\<close> as the framework serves it: the body is validated into a
  \<^verbatim>\<open>ContactMessage\<close> first (a rejected body is answered with status 422 and the handler
  does not run), then the handler is called.\<close>

definition post_contact :: "pylib \<Rightarrow> dict \<Rightarrow> world \<Rightarrow> (http_error + contact_response) \<times> world" where
  "post_contact L body w =
     (case ContactMessage_init L body of
        Inl e \<Rightarrow> (Inl (HTTPException 422 (exn_str e)), w)
      | Inr payload \<Rightarrow> submit_contact L payload w)"

section \<open>An instance of the library and concrete states\<close>

text \<open>Validators that accept exactly the values of the declared type (an integer also
  where a float is expected), URLs by their scheme and e-mail addresses by their
  \<^verbatim>\<open>@\<close>; they serve to evaluate the model on concrete inputs.\<close>

fun all_strs :: "pyval list \<Rightarrow> string list option" where
  "all_strs [] = Some []"
| "all_strs (PStr s # vs) = (case all_strs vs of None \<Rightarrow> None | Some ss \<Rightarrow> Some (s # ss))"
| "all_strs (_ # vs) = None"

definition typed_lib :: pylib where
  "typed_lib =
     \<lparr>conv_str = (\<lambda>v. case v of PStr s \<Rightarrow> Some s | _ \<Rightarrow> None),
      conv_int = (\<lambda>v. case v of PInt i \<Rightarrow> Some i | _ \<Rightarrow> None),
      conv_float = (\<lambda>v. case v of PFloat r \<Rightarrow> Some r | PInt i \<Rightarrow> Some (of_int i) | _ \<Rightarrow> None),
      conv_datetime = (\<lambda>v. case v of PDatetime t \<Rightarrow> Some t | _ \<Rightarrow> None),
      conv_url = (\<lambda>v. case v of
                      PStr s \<Rightarrow> (if take 7 s = ''http://'' \<or> take 8 s = ''https://'' then Some s else None)
                    | _ \<Rightarrow> None),
      conv_email = (\<lambda>v. case v of
                        PStr s \<Rightarrow> (if CHR ''@'' \<in> set s then Some s else None)
                      | _ \<Rightarrow> None),
      conv_str_list = (\<lambda>v. case v of PList vs \<Rightarrow> all_strs vs | _ \<Rightarrow> None),
      str_of = (\<lambda>v. case v of
                    PStr s \<Rightarrow> s
                  | PObjectId n \<Rightarrow> ''oid'' @ replicate n (CHR ''1'')
                  | _ \<Rightarrow> ''?'')\<rparr>"

definition no_faults :: "store_op \<Rightarrow> string \<Rightarrow> string option" where
  "no_faults op c = None"

definition empty_store :: store where
  "empty_store = \<lparr>colls = (\<lambda>c. []), indexes = [], next_id = 0, faults = no_faults\<rparr>"

text \<open>A process whose store is not configured, and one connected to a store with the given
  contents.\<close>

definition unconfigured :: "nat \<Rightarrow> world" where
  "unconfigured t = \<lparr>db = None, loaded_at = 100, clock = (\<lambda>n. t + n), ticks = 0, trace = []\<rparr>"

definition connected_to :: "store \<Rightarrow> world" where
  "connected_to s = \<lparr>db = Some s, loaded_at = 100, clock = (\<lambda>n. 200 + n), ticks = 0, trace = []\<rparr>"

text \<open>Between two states only the clock has been read: the store, the log of calls and the
  module constants are the same.\<close>

definition clock_only :: "world \<Rightarrow> world \<Rightarrow> bool" where
  "clock_only w w' =
     (db w' = db w \<and> trace w' = trace w \<and> loaded_at w' = loaded_at w \<and> clock w' = clock w
      \<and> ticks w \<le> ticks w')"

definition is_create :: "call \<Rightarrow> bool" where
  "is_create c = (case c of CreateDocument _ _ \<Rightarrow> True | _ \<Rightarrow> False)"


definition sample_message :: ContactMessage where
  "sample_message = \<lparr>name = ''Mali'', email = ''mali@example.com'', company = None,
     message = ''Booking request'', topic = Some ''press''\<rparr>"

definition insert_fault :: "store_op \<Rightarrow> string \<Rightarrow> string option" where
  "insert_fault op c =
     (if op = OpInsert
      then Some ''connection refused: no primary node was reachable within thirty seconds''
      else None)"

text \<open>A store holding sixty reels.\<close>

definition sixty_reels :: store where
  "sixty_reels = empty_store\<lparr>colls := (\<lambda>c. if c = COL_REEL
      then replicate 60 [(''_id'', PObjectId 7), (''title'', PStr ''a''),
                         (''thumbnail_url'', PStr ''https://e.com/a.jpg'')]
      else [])\<rparr>"

text \<open>A store whose metric document has a negative follower count and whose reel
  document has a malformed thumbnail URL.\<close>

definition corrupt_metric :: dict where
  "corrupt_metric =
     [(''_id'', PObjectId 0), (''platform'', PStr ''Instagram''), (''followers'', PInt (- 5)),
      (''avg_views'', PInt 10), (''engagement_rate'', PFloat 1), (''last_updated'', PDatetime 50)]"

definition corrupt_reel :: dict where
  "corrupt_reel =
     [(''_id'', PObjectId 1), (''title'', PStr ''Clip''), (''thumbnail_url'', PStr ''not a url'')]"

definition corrupt_store :: store where
  "corrupt_store =
     empty_store\<lparr>colls := (\<lambda>c. if c = COL_METRIC then [corrupt_metric]
                            else if c = COL_REEL then [corrupt_reel] else [])\<rparr>"


text \<open>Applying a function to the value of a result that is not an exception.\<close>

definition on_result :: "('a \<Rightarrow> 'b) \<Rightarrow> exn + 'a \<Rightarrow> exn + 'b" where
  "on_result f r = (case r of Inl e \<Rightarrow> Inl e | Inr a \<Rightarrow> Inr (f a))"

text \<open>A request body with the required fields of a contact message.\<close>

definition sample_body :: dict where
  "sample_body = [(''name'', PStr ''Mali''), (''email'', PStr ''mali@example.com''),
                  (''message'', PStr ''Booking request'')]"

text \<open>A store that fails every index creation, and one that refuses every insert into
  the metric collection.\<close>

definition index_fault :: "store_op \<Rightarrow> string \<Rightarrow> string option" where
  "index_fault op c = (if op = OpCreateIndex then Some ''index build failed'' else None)"

definition metric_insert_fault :: "store_op \<Rightarrow> string \<Rightarrow> string option" where
  "metric_insert_fault op c =
     (if op = OpInsert \<and> c = COL_METRIC then Some ''write refused'' else None)"

text \<open>The state of the store is the same up to the log of calls and the indexes: the
  documents, the faults and the next identifier are unchanged.\<close>

definition same_documents :: "world \<Rightarrow> world \<Rightarrow> bool" where
  "same_documents w w' =
     (case (db w, db w') of
        (None, None) \<Rightarrow> True
      | (Some s, Some s') \<Rightarrow> colls s' = colls s \<and> faults s' = faults s \<and> next_id s' = next_id s
      | _ \<Rightarrow> False)"


text \<open>A store that holds the seed documents, as a first startup leaves it.\<close>

definition seeded_store :: store where
  "seeded_store =
     empty_store\<lparr>colls := (\<lambda>c. if c = COL_METRIC
                              then map (\<lambda>d. (''_id'', PObjectId 0) # d) (SEED_METRICS 100)
                            else if c = COL_REEL
                              then map (\<lambda>d. (''_id'', PObjectId 1) # d) SEED_REELS
                            else []),
                 next_id := 2\<rparr>"

section \<open>Frame properties of validation and loops\<close>

lemma matches_empty: "matches [] d"
  by (simp add: matches_def)

lemma slice_to_length: "length (slice_to n xs) \<le> length xs"
  by (simp add: slice_to_def)

lemma clock_only_refl: "clock_only w w"
  by (simp add: clock_only_def)

lemma clock_only_trans: "clock_only w w1 \<Longrightarrow> clock_only w1 w2 \<Longrightarrow> clock_only w w2"
  by (simp add: clock_only_def)

lemma timestamp_clock_only: "clock_only w (snd (timestamp L d k w))"
  by (simp add: timestamp_def datetime_now_def clock_only_def split: option.splits)

lemma Metric_init_clock_only: "clock_only w (snd (Metric_init L d w))"
  using timestamp_clock_only [of w L d "''last_updated''"]
  by (cases "timestamp L d ''last_updated'' w") (simp add: Metric_init_def)

lemma Reel_init_clock_only: "clock_only w (snd (Reel_init L d w))"
  using timestamp_clock_only [of w L d "''posted_at''"]
  by (cases "timestamp L d ''posted_at'' w") (simp add: Reel_init_def)

lemma metric_of_doc_clock_only: "clock_only w (snd (metric_of_doc L d w))"
  by (simp add: metric_of_doc_def Metric_init_clock_only)

lemma reel_of_doc_clock_only: "clock_only w (snd (reel_of_doc L d w))"
  by (simp add: reel_of_doc_def Let_def Reel_init_clock_only clock_only_refl)

lemma for_each_clock_only:
  assumes "\<And>x w. clock_only w (snd (body x w))"
  shows "clock_only w (snd (for_each body xs items w))"
proof (induction xs arbitrary: items w)
  case Nil
  show ?case by (simp add: clock_only_refl)
next
  case (Cons x xs)
  obtain r w1 where b: "body x w = (r, w1)" by (cases "body x w")
  have c1: "clock_only w w1" using assms [of w x] b by simp
  show ?case
  proof (cases r)
    case (Inl e)
    with b c1 show ?thesis by simp
  next
    case (Inr y)
    have "clock_only w1 (snd (for_each body xs (items @ [y]) w1))" by (rule Cons.IH)
    with c1 have "clock_only w (snd (for_each body xs (items @ [y]) w1))"
      by (rule clock_only_trans)
    with b Inr show ?thesis by simp
  qed
qed

lemma for_each_length:
  "for_each body xs items w = (Inr ys, w') \<Longrightarrow> length ys = length items + length xs"
proof (induction xs arbitrary: items w)
  case Nil
  then show ?case by simp
next
  case (Cons x xs)
  then show ?case
    by (auto split: prod.splits sum.splits)
qed

lemma fallback_reels_clock_only: "clock_only w (snd (fallback_reels L limit w))"
  using for_each_clock_only [of "Reel_init L" w SEED_REELS "[]", OF Reel_init_clock_only]
  by (cases "for_each (Reel_init L) SEED_REELS [] w") (simp add: fallback_reels_def split: sum.splits)

lemma fallback_reels_length:
  "fst (fallback_reels L limit w) = Inr items \<Longrightarrow> length items \<le> 2"
proof -
  assume a: "fst (fallback_reels L limit w) = Inr items"
  obtain r w' where f: "for_each (Reel_init L) SEED_REELS [] w = (r, w')"
    by (cases "for_each (Reel_init L) SEED_REELS [] w")
  with a obtain rs where r: "r = Inr rs" and i: "items = slice_to limit rs"
    by (cases r) (auto simp: fallback_reels_def)
  from f r have "length rs = length SEED_REELS" using for_each_length by fastforce
  then have "length rs = 2" by (simp add: SEED_REELS_def)
  with i slice_to_length [of limit rs] show ?thesis by simp
qed

section \<open>The contact write\<close>

text \<open>
  C6. For every payload, \<^verbatim>\<open>POST /contact\<close> with the store unconfigured
  (\<^verbatim>\<open>db is None\<close>) returns \<^verbatim>\<open>{status: "ok", id: null}\<close>, raises nothing, and makes no
  call on the store: the log of calls is unchanged.
\<close>

theorem contact_unconfigured:
  "db w = None \<Longrightarrow>
     fst (submit_contact L payload w) = Inr \<lparr>status = ''ok'', doc_id = None\<rparr>
     \<and> trace (snd (submit_contact L payload w)) = trace w
     \<and> db (snd (submit_contact L payload w)) = None"
  by (simp add: submit_contact_def datetime_now_def)

theorem contact_unconfigured_witness:
  "db (unconfigured 0) = None
   \<and> fst (submit_contact typed_lib sample_message (unconfigured 0))
       = Inr \<lparr>status = ''ok'', doc_id = None\<rparr>
   \<and> trace (snd (submit_contact typed_lib sample_message (unconfigured 0))) = []"
  using contact_unconfigured [of "unconfigured 0" typed_lib sample_message]
  by (simp add: unconfigured_def)

text \<open>
  C7, as stated, fails: the detail of the 500 response is the whole text of the error. Here
  the insert raises with a message of 71 characters and the detail is that message, not a
  shortened one.
\<close>

theorem contact_detail_not_truncated:
  "fst (submit_contact typed_lib sample_message (connected_to (empty_store\<lparr>faults := insert_fault\<rparr>)))
     = Inl (HTTPException 500
         ''connection refused: no primary node was reachable within thirty seconds'')
   \<and> take 50 ''connection refused: no primary node was reachable within thirty seconds''
       \<noteq> ''connection refused: no primary node was reachable within thirty seconds''"
  by (simp add: submit_contact_def datetime_now_def create_document_def log_call_def
      connected_to_def insert_fault_def empty_store_def COL_CONTACT_def)

text \<open>
  C7, amended. For every \<^verbatim>\<open>POST /contact\<close> against a configured store whose insert
  raises, the handler answers with status 500 and a detail that is the full description
  \<^verbatim>\<open>str(e)\<close> of the error.
\<close>

theorem contact_insert_error_detail:
  "db w = Some s \<Longrightarrow> faults s OpInsert COL_CONTACT = Some msg \<Longrightarrow>
     fst (submit_contact L payload w) = Inl (HTTPException 500 msg)"
  by (simp add: submit_contact_def datetime_now_def create_document_def log_call_def)

theorem contact_insert_error_detail_witness:
  "db (connected_to (empty_store\<lparr>faults := insert_fault\<rparr>)) = Some (empty_store\<lparr>faults := insert_fault\<rparr>)
   \<and> faults (empty_store\<lparr>faults := insert_fault\<rparr>) OpInsert COL_CONTACT = Some ''connection refused: no primary node was reachable within thirty seconds''
   \<and> fst (submit_contact typed_lib sample_message (connected_to (empty_store\<lparr>faults := insert_fault\<rparr>)))
       = Inl (HTTPException 500
           ''connection refused: no primary node was reachable within thirty seconds'')"
  using contact_insert_error_detail [of "connected_to (empty_store\<lparr>faults := insert_fault\<rparr>)"
      "empty_store\<lparr>faults := insert_fault\<rparr>"
      "''connection refused: no primary node was reachable within thirty seconds''"
      typed_lib sample_message]
  by (simp add: connected_to_def insert_fault_def empty_store_def)

section \<open>Reading the reels\<close>

lemma get_documents_trace:
  "trace (snd (get_documents c flt limit w)) = trace w @ [GetDocuments c flt limit]"
  by (simp add: get_documents_def log_call_def Let_def split: option.splits)

lemma get_documents_length:
  "fst (get_documents c flt (Some n) w) = Inr docs \<Longrightarrow> int (length docs) \<le> max 0 n"
  by (auto simp: get_documents_def Let_def split: option.splits)

lemma get_reels_trace:
  "trace (snd (get_reels L limit_arg w))
     = trace w @ [GetDocuments COL_REEL [] (Some (min (case limit_arg of None \<Rightarrow> 20 | Some n \<Rightarrow> n) 50))]"
proof -
  let ?limit = "case limit_arg of None \<Rightarrow> 20 | Some n \<Rightarrow> n"
  obtain r w1 where g: "get_documents COL_REEL [] (Some (min ?limit 50)) w = (r, w1)"
    by (cases "get_documents COL_REEL [] (Some (min ?limit 50)) w")
  have t1: "trace w1 = trace w @ [GetDocuments COL_REEL [] (Some (min ?limit 50))]"
    using get_documents_trace [of COL_REEL "[]" "Some (min ?limit 50)" w] g by simp
  have fb: "\<And>w'. trace (snd (fallback_reels L ?limit w')) = trace w'"
    using fallback_reels_clock_only by (simp add: clock_only_def)
  show ?thesis
  proof (cases r)
    case (Inl e)
    with g t1 fb show ?thesis by (simp add: get_reels_def)
  next
    case (Inr docs)
    obtain r2 w2 where f: "for_each (reel_of_doc L) docs [] w1 = (r2, w2)"
      by (cases "for_each (reel_of_doc L) docs [] w1")
    have "clock_only w1 w2"
      using for_each_clock_only [of "reel_of_doc L" w1 docs "[]", OF reel_of_doc_clock_only] f
      by simp
    then have t2: "trace w2 = trace w1" by (simp add: clock_only_def)
    with g Inr f t1 fb show ?thesis
      by (cases r2) (simp_all add: get_reels_def)
  qed
qed

lemma get_reels_length:
  assumes "fst (get_reels L limit_arg w) = Inr items"
  shows "int (length items) \<le> max 2 (min (case limit_arg of None \<Rightarrow> 20 | Some n \<Rightarrow> n) 50)"
proof -
  let ?limit = "case limit_arg of None \<Rightarrow> 20 | Some n \<Rightarrow> n"
  obtain r w1 where g: "get_documents COL_REEL [] (Some (min ?limit 50)) w = (r, w1)"
    by (cases "get_documents COL_REEL [] (Some (min ?limit 50)) w")
  have fb: "\<And>w'. fst (fallback_reels L ?limit w') = Inr items \<Longrightarrow> ?thesis"
    using fallback_reels_length by fastforce
  show ?thesis
  proof (cases r)
    case (Inl e)
    with g assms fb show ?thesis by (simp add: get_reels_def)
  next
    case (Inr docs)
    then have dl: "int (length docs) \<le> max 0 (min ?limit 50)"
      using get_documents_length [of COL_REEL "[]" "min ?limit 50" w docs] g by simp
    obtain r2 w2 where f: "for_each (reel_of_doc L) docs [] w1 = (r2, w2)"
      by (cases "for_each (reel_of_doc L) docs [] w1")
    show ?thesis
    proof (cases r2)
      case (Inl e)
      with g Inr f assms fb show ?thesis by (simp add: get_reels_def)
    next
      case r2: (Inr ys)
      with g Inr f assms have "items = ys" by (simp add: get_reels_def)
      moreover from f r2 have "length ys = length docs"
        using for_each_length by fastforce
      ultimately show ?thesis using dl by simp
    qed
  qed
qed

lemma for_each_replicate:
  assumes "\<And>w. \<not> isl (fst (body x w))"
  shows "\<not> isl (fst (for_each body (replicate n x) items w))"
proof (induction n arbitrary: items w)
  case 0
  show ?case by simp
next
  case (Suc n)
  obtain r w1 where b: "body x w = (r, w1)" by (cases "body x w")
  with assms [of w] obtain y where "r = Inr y" by (cases r) auto
  with b Suc.IH [of "items @ [y]" w1] show ?case by simp
qed

lemma sixty_reels_doc_ok:
  "\<not> isl (fst (reel_of_doc typed_lib [(''_id'', PObjectId 7), (''title'', PStr ''a''),
                         (''thumbnail_url'', PStr ''https://e.com/a.jpg'')] w))"
  by (simp add: reel_of_doc_def Reel_init_def typed_lib_def timestamp_def datetime_now_def
      and_then_def required_def optional_def defaulted_def AList.delete_eq)

text \<open>
  C4. For every requested limit \<open>N\<close>, \<^verbatim>\<open>GET /reels\<close> against a connected store issues
  the store read with the limit \<open>min N 50\<close>, which is at most 50, and the response has at
  most 50 records.
\<close>

theorem reels_limit_capped:
  "db w = Some s \<Longrightarrow>
     trace (snd (get_reels L (Some N) w)) = trace w @ [GetDocuments COL_REEL [] (Some (min N 50))]
     \<and> min N 50 \<le> 50
     \<and> (\<forall>items. fst (get_reels L (Some N) w) = Inr items \<longrightarrow> length items \<le> 50)"
  using get_reels_trace [of L "Some N" w] get_reels_length [of L "Some N" w]
  by fastforce

theorem reels_limit_capped_witness:
  "db (connected_to sixty_reels) = Some sixty_reels
   \<and> length (colls sixty_reels COL_REEL) = 60
   \<and> trace (snd (get_reels typed_lib (Some 1000) (connected_to sixty_reels)))
       = [GetDocuments COL_REEL [] (Some 50)]
   \<and> (\<exists>items. fst (get_reels typed_lib (Some 1000) (connected_to sixty_reels)) = Inr items
         \<and> length items \<le> 50)"
proof -
  let ?d = "[(''_id'', PObjectId 7), (''title'', PStr ''a''),
             (''thumbnail_url'', PStr ''https://e.com/a.jpg'')]"
  let ?w = "connected_to sixty_reels"
  have d: "db ?w = Some sixty_reels"
    by (simp add: connected_to_def)
  have l: "length (colls sixty_reels COL_REEL) = 60"
    by (simp add: sixty_reels_def)
  have g: "get_documents COL_REEL [] (Some (min 1000 50)) ?w
             = (Inr (replicate 50 ?d), log_call (GetDocuments COL_REEL [] (Some (min 1000 50))) ?w)"
    by (simp add: get_documents_def connected_to_def sixty_reels_def empty_store_def no_faults_def
        matches_empty Let_def)
  obtain r w2 where f: "for_each (reel_of_doc typed_lib) (replicate 50 ?d) []
       (log_call (GetDocuments COL_REEL [] (Some (min 1000 50))) ?w) = (r, w2)"
    by (cases "for_each (reel_of_doc typed_lib) (replicate 50 ?d) []
       (log_call (GetDocuments COL_REEL [] (Some (min 1000 50))) ?w)")
  have "\<not> isl (fst (for_each (reel_of_doc typed_lib) (replicate 50 ?d) []
       (log_call (GetDocuments COL_REEL [] (Some (min 1000 50))) ?w)))"
    by (rule for_each_replicate) (rule sixty_reels_doc_ok)
  with f obtain items where r: "r = Inr items" by (cases r) auto
  have i: "fst (get_reels typed_lib (Some 1000) ?w) = Inr items"
    using g f r by (simp add: get_reels_def)
  from reels_limit_capped [OF d, of typed_lib 1000] i
  have "trace (snd (get_reels typed_lib (Some 1000) ?w))
          = trace ?w @ [GetDocuments COL_REEL [] (Some (min 1000 50))]"
    and "length items \<le> 50"
    by blast+
  with d l i show ?thesis by (simp add: connected_to_def)
qed

text \<open>
  C10. Without a \<^verbatim>\<open>limit\<close> parameter the limit is 20: the store read is issued with
  limit 20 and the response has at most 20 records.
\<close>

theorem reels_default_limit:
  "trace (snd (get_reels L None w)) = trace w @ [GetDocuments COL_REEL [] (Some 20)]
   \<and> (\<forall>items. fst (get_reels L None w) = Inr items \<longrightarrow> length items \<le> 20)"
  using get_reels_trace [of L None w] get_reels_length [of L None w]
  by fastforce


theorem reels_default_limit_witness:
  "trace (snd (get_reels typed_lib None (unconfigured 0))) = [GetDocuments COL_REEL [] (Some 20)]
   \<and> (\<exists>items. fst (get_reels typed_lib None (unconfigured 0)) = Inr items \<and> length items \<le> 20)"
proof -
  have "case fst (get_reels typed_lib None (unconfigured 0)) of Inl e \<Rightarrow> False | Inr items \<Rightarrow> True"
    by code_simp
  then obtain items where i: "fst (get_reels typed_lib None (unconfigured 0)) = Inr items"
    by (cases "fst (get_reels typed_lib None (unconfigured 0))") auto
  from reels_default_limit [of typed_lib "unconfigured 0"] i
  show ?thesis by (simp add: unconfigured_def)
qed

text \<open>
  C5 at the limit \<open>- 1\<close>, served from the fallback catalog (store unconfigured): the
  slice \<^verbatim>\<open>[:-1]\<close> drops the last of the two seed reels and keeps the first, so the
  response is not empty.
\<close>

theorem reels_negative_limit:
  "fst (get_reels typed_lib (Some (- 1)) (unconfigured 0))
     = Inr [\<lparr>reel_id = None, title = ''Pad work with a twist'',
             thumbnail_url = ''https://images.unsplash.com/photo-1605296867304-46d5465a13f1?q=80&w=1200&auto=format&fit=crop'',
             video_url = Some ''https://www.example.com/reel1.mp4'',
             views = 2300000, likes = 340000,
             hashtags = [''#muaythai'', ''#twerk'', ''#funnytraining''], posted_at = 0\<rparr>]"
  by code_simp

section \<open>Falling back to the seed data\<close>




lemma filter_matches_empty: "filter (matches []) xs = xs"
  by (induction xs) (simp_all add: matches_empty)






text \<open>
  C1 on a connected store whose read succeeds. The metric collection holds a document with
  a negative follower count and the reel collection one with a malformed thumbnail URL.
  Building the record raises a \<open>ValidationError\<close> in both handlers; the
  \<^verbatim>\<open>except Exception\<close> branch, which its comment gives as the fallback "for preview
  when DB isn't configured", catches it, and both requests answer with the seed data
  instead of an error.
\<close>

theorem validation_error_hidden:
  "db (connected_to corrupt_store) = Some corrupt_store
   \<and> fst (get_documents COL_METRIC [] None (connected_to corrupt_store)) = Inr [corrupt_metric]
   \<and> fst (metric_of_doc typed_lib corrupt_metric (connected_to corrupt_store))
     = Inl (ValidationError ''followers'')
   \<and> fst (get_metrics typed_lib (connected_to corrupt_store))
     = Inr [\<lparr>platform = ''Instagram'', followers = 1250000, avg_views = 1500000,
             engagement_rate = 87 / 10, last_updated = 100\<rparr>]
   \<and> fst (get_documents COL_REEL [] (Some (min 5 50)) (connected_to corrupt_store))
     = Inr [corrupt_reel]
   \<and> fst (reel_of_doc typed_lib corrupt_reel (connected_to corrupt_store))
     = Inl (ValidationError ''thumbnail_url'')
   \<and> on_result (map title) (fst (get_reels typed_lib (Some 5) (connected_to corrupt_store)))
     = Inr [''Pad work with a twist'', ''Elbows, knees & giggles'']"
proof -
  have "db (connected_to corrupt_store) = Some corrupt_store"
    by (simp add: connected_to_def)
  moreover have
    "fst (get_documents COL_METRIC [] None (connected_to corrupt_store)) = Inr [corrupt_metric]
     \<and> fst (metric_of_doc typed_lib corrupt_metric (connected_to corrupt_store))
       = Inl (ValidationError ''followers'')
     \<and> fst (get_metrics typed_lib (connected_to corrupt_store))
       = Inr [\<lparr>platform = ''Instagram'', followers = 1250000, avg_views = 1500000,
               engagement_rate = 87 / 10, last_updated = 100\<rparr>]
     \<and> fst (get_documents COL_REEL [] (Some (min 5 50)) (connected_to corrupt_store))
       = Inr [corrupt_reel]
     \<and> fst (reel_of_doc typed_lib corrupt_reel (connected_to corrupt_store))
       = Inl (ValidationError ''thumbnail_url'')
     \<and> on_result (map title) (fst (get_reels typed_lib (Some 5) (connected_to corrupt_store)))
       = Inr [''Pad work with a twist'', ''Elbows, knees & giggles'']"
    by code_simp
  ultimately show ?thesis by (rule conjI)
qed




section \<open>The timestamp of a contact message\<close>

lemma model_dump_received_at:
  "AList.update ''received_at'' v (model_dump p) = model_dump p @ [(''received_at'', v)]"
  by (simp add: model_dump_def)

lemma ContactMessage_init_fields:
  assumes "map_of body' ''name'' = map_of body ''name''"
      and "map_of body' ''email'' = map_of body ''email''"
      and "map_of body' ''company'' = map_of body ''company''"
      and "map_of body' ''message'' = map_of body ''message''"
      and "map_of body' ''topic'' = map_of body ''topic''"
  shows "ContactMessage_init L body' = ContactMessage_init L body"
  using assms by (simp add: ContactMessage_init_def required_def optional_def)

text \<open>
  C9. The \<^verbatim>\<open>received_at\<close> of the stored record is the reading of the server clock at
  submission and does not depend on the request body: two bodies that agree on the five
  fields of \<^verbatim>\<open>ContactMessage\<close> (whatever else they carry, a \<^verbatim>\<open>received_at\<close>
  included) are served alike, and the document inserted is the dumped payload followed by
  \<^verbatim>\<open>received_at\<close> set to the clock reading.
\<close>

theorem received_at_server_assigned:
  assumes "map_of body' ''name'' = map_of body ''name''"
      and "map_of body' ''email'' = map_of body ''email''"
      and "map_of body' ''company'' = map_of body ''company''"
      and "map_of body' ''message'' = map_of body ''message''"
      and "map_of body' ''topic'' = map_of body ''topic''"
  shows "post_contact L body' w = post_contact L body w
       \<and> (db w = Some s \<and> faults s OpInsert COL_CONTACT = None \<and> ContactMessage_init L body = Inr p
          \<longrightarrow> (\<exists>s'. db (snd (post_contact L body w)) = Some s'
                \<and> colls s' COL_CONTACT
                    = colls s COL_CONTACT
                      @ [(''_id'', PObjectId (next_id s)) # model_dump p
                           @ [(''received_at'', PDatetime (clock w (ticks w)))]]))"
proof (intro conjI impI)
  show "post_contact L body' w = post_contact L body w"
    using ContactMessage_init_fields [OF assms] by (simp add: post_contact_def)
next
  assume a: "db w = Some s \<and> faults s OpInsert COL_CONTACT = None \<and> ContactMessage_init L body = Inr p"
  then show "\<exists>s'. db (snd (post_contact L body w)) = Some s'
                \<and> colls s' COL_CONTACT
                    = colls s COL_CONTACT
                      @ [(''_id'', PObjectId (next_id s)) # model_dump p
                           @ [(''received_at'', PDatetime (clock w (ticks w)))]]"
    by (simp add: post_contact_def submit_contact_def datetime_now_def create_document_def
        log_call_def model_dump_received_at)
qed

theorem received_at_server_assigned_witness:
  "db (connected_to empty_store) = Some empty_store
   \<and> faults empty_store OpInsert COL_CONTACT = None
   \<and> ContactMessage_init typed_lib sample_body
       = Inr \<lparr>name = ''Mali'', email = ''mali@example.com'', company = None,
              message = ''Booking request'', topic = None\<rparr>
   \<and> post_contact typed_lib ((''received_at'', PDatetime 3) # sample_body) (connected_to empty_store)
       = post_contact typed_lib sample_body (connected_to empty_store)
   \<and> (\<exists>s'. db (snd (post_contact typed_lib sample_body (connected_to empty_store))) = Some s'
         \<and> colls s' COL_CONTACT
             = [[(''_id'', PObjectId 0), (''name'', PStr ''Mali''), (''email'', PStr ''mali@example.com''),
                 (''company'', PNone), (''message'', PStr ''Booking request''), (''topic'', PNone),
                 (''received_at'', PDatetime 200)]])"
proof -
  have d: "db (connected_to empty_store) = Some empty_store"
    by (simp add: connected_to_def)
  have f: "faults empty_store OpInsert COL_CONTACT = None"
    by (simp add: empty_store_def no_faults_def)
  have c: "ContactMessage_init typed_lib sample_body
       = Inr \<lparr>name = ''Mali'', email = ''mali@example.com'', company = None,
              message = ''Booking request'', topic = None\<rparr>"
    by (simp add: ContactMessage_init_def sample_body_def typed_lib_def required_def optional_def
        and_then_def)
  note t = received_at_server_assigned [where body' = "(''received_at'', PDatetime 3) # sample_body"
      and body = sample_body and L = typed_lib and w = "connected_to empty_store"
      and s = empty_store
      and p = "\<lparr>name = ''Mali'', email = ''mali@example.com'', company = None,
              message = ''Booking request'', topic = None\<rparr>"]
  have t': "post_contact typed_lib ((''received_at'', PDatetime 3) # sample_body) (connected_to empty_store)
       = post_contact typed_lib sample_body (connected_to empty_store)
     \<and> (\<exists>s'. db (snd (post_contact typed_lib sample_body (connected_to empty_store))) = Some s'
                \<and> colls s' COL_CONTACT
                    = colls empty_store COL_CONTACT
                      @ [(''_id'', PObjectId (next_id empty_store))
                          # model_dump \<lparr>name = ''Mali'', email = ''mali@example.com'', company = None,
                              message = ''Booking request'', topic = None\<rparr>
                           @ [(''received_at'', PDatetime (clock (connected_to empty_store)
                                (ticks (connected_to empty_store))))]])"
    using t d f c by simp
  then show ?thesis
    using d f c
    by (simp add: empty_store_def connected_to_def model_dump_def opt_str_def)
qed

section \<open>Seeding at startup\<close>

lemma count_documents_connected:
  "db w = Some s \<Longrightarrow>
     count_documents c [] w
       = ((case faults s OpCount c of
             Some msg \<Rightarrow> Inl (StoreError msg)
           | None \<Rightarrow> Inr (length (colls s c))),
          log_call (CountDocuments c []) w)"
  by (simp add: count_documents_def Let_def filter_matches_empty split: option.splits)

lemma seed_if_empty_nonempty:
  "db w = Some s \<Longrightarrow> colls s c \<noteq> [] \<Longrightarrow>
     snd (seed_if_empty L c seeds w) = log_call (CountDocuments c []) w"
  by (simp add: seed_if_empty_def count_documents_connected split: option.splits)

lemma log_call_db: "db (log_call c w) = db w"
  by (simp add: log_call_def)

lemma log_call_not_create: "\<not> is_create c \<Longrightarrow> filter is_create (trace (log_call c w)) = filter is_create (trace w)"
  by (simp add: log_call_def)

lemma seed_data_nonempty:
  assumes "db w = Some s" and "colls s COL_METRIC \<noteq> []" and "colls s COL_REEL \<noteq> []"
  shows "db (snd (seed_data L w)) = Some s
       \<and> filter is_create (trace (snd (seed_data L w))) = filter is_create (trace w)"
proof -
  let ?w1 = "log_call (CountDocuments COL_METRIC []) w"
  let ?w2 = "log_call (CountDocuments COL_REEL []) ?w1"
  obtain r1 where s1: "seed_if_empty L COL_METRIC (SEED_METRICS (loaded_at w)) w = (r1, ?w1)"
    using seed_if_empty_nonempty [OF assms(1,2), of L "SEED_METRICS (loaded_at w)"]
    by (cases "seed_if_empty L COL_METRIC (SEED_METRICS (loaded_at w)) w") simp
  have d1: "db ?w1 = Some s" using assms(1) by (simp add: log_call_db)
  have s2: "snd (seed_if_empty L COL_REEL SEED_REELS ?w1) = ?w2"
    using d1 assms(3) by (rule seed_if_empty_nonempty)
  have n1: "\<not> is_create (CountDocuments COL_METRIC [])"
    and n2: "\<not> is_create (CountDocuments COL_REEL [])"
    by (simp_all add: is_create_def)
  have "snd (seed_data L w) = ?w1 \<or> snd (seed_data L w) = ?w2"
    using assms(1) s1 s2 by (cases r1) (simp_all add: seed_data_def)
  then show ?thesis
    using assms(1) n1 n2 by (auto simp: log_call_db log_call_not_create)
qed


lemma create_document_connected:
  "db w = Some s \<Longrightarrow> faults s OpInsert c = None \<Longrightarrow>
     create_document L c d w
       = (Inr (str_of L (PObjectId (next_id s))),
          (log_call (CreateDocument c d) w)
            \<lparr>db := Some (s\<lparr>colls := (colls s)(c := colls s c @ [(''_id'', PObjectId (next_id s)) # d]),
                            next_id := Suc (next_id s)\<rparr>)\<rparr>)"
  by (simp add: create_document_def Let_def)

lemma delete_id_stored:
  "AList.delete ''_id'' ((''_id'', v) # d) = AList.delete ''_id'' d"
  by (simp add: AList.delete_eq)

lemma seed_loop:
  "db w = Some s \<Longrightarrow> faults s OpInsert c = None \<Longrightarrow>
     \<exists>ids w' s'. for_each (create_document L c) seeds items w = (Inr ids, w')
        \<and> db w' = Some s' \<and> faults s' = faults s \<and> loaded_at w' = loaded_at w
        \<and> (\<forall>c'. c' \<noteq> c \<longrightarrow> colls s' c' = colls s c')
        \<and> map (AList.delete ''_id'') (colls s' c)
            = map (AList.delete ''_id'') (colls s c) @ map (AList.delete ''_id'') seeds"
proof (induction seeds arbitrary: items w s)
  case Nil
  then show ?case by simp
next
  case (Cons d seeds)
  let ?s1 = "s\<lparr>colls := (colls s)(c := colls s c @ [(''_id'', PObjectId (next_id s)) # d]),
                next_id := Suc (next_id s)\<rparr>"
  let ?w1 = "(log_call (CreateDocument c d) w)\<lparr>db := Some ?s1\<rparr>"
  have cd: "create_document L c d w = (Inr (str_of L (PObjectId (next_id s))), ?w1)"
    using Cons.prems by (rule create_document_connected)
  have d1: "db ?w1 = Some ?s1" by simp
  have f1: "faults ?s1 OpInsert c = None" using Cons.prems by simp
  from Cons.IH [OF d1 f1, of "items @ [str_of L (PObjectId (next_id s))]"]
  obtain ids w' s' where
    r: "for_each (create_document L c) seeds (items @ [str_of L (PObjectId (next_id s))]) ?w1
          = (Inr ids, w')"
    and p: "db w' = Some s'" "faults s' = faults ?s1" "loaded_at w' = loaded_at ?w1"
      "\<forall>c'. c' \<noteq> c \<longrightarrow> colls s' c' = colls ?s1 c'"
      "map (AList.delete ''_id'') (colls s' c)
         = map (AList.delete ''_id'') (colls ?s1 c) @ map (AList.delete ''_id'') seeds"
    by blast
  have "for_each (create_document L c) (d # seeds) items w = (Inr ids, w')"
    using cd r by simp
  moreover have "faults s' = faults s" using p(2) by simp
  moreover have "loaded_at w' = loaded_at w" using p(3) by (simp add: log_call_def)
  moreover have "\<forall>c'. c' \<noteq> c \<longrightarrow> colls s' c' = colls s c'" using p(4) by simp
  moreover have "map (AList.delete ''_id'') (colls s' c)
       = map (AList.delete ''_id'') (colls s c) @ map (AList.delete ''_id'') (d # seeds)"
    using p(5) by (simp add: delete_id_stored)
  ultimately show ?case using p(1) by blast
qed

lemma seed_if_empty_empty:
  assumes "db w = Some s" and "colls s c = []"
      and "faults s OpCount c = None" and "faults s OpInsert c = None"
  shows "\<exists>w' s'. seed_if_empty L c seeds w = (Inr (), w')
        \<and> db w' = Some s' \<and> faults s' = faults s \<and> loaded_at w' = loaded_at w
        \<and> (\<forall>c'. c' \<noteq> c \<longrightarrow> colls s' c' = colls s c')
        \<and> map (AList.delete ''_id'') (colls s' c) = map (AList.delete ''_id'') seeds"
proof -
  let ?w1 = "log_call (CountDocuments c []) w"
  have c: "count_documents c [] w = (Inr 0, ?w1)"
    using assms by (simp add: count_documents_connected)
  have d1: "db ?w1 = Some s" using assms(1) by (simp add: log_call_db)
  from seed_loop [OF d1 assms(4), of L seeds "[]"]
  obtain ids w' s' where
    r: "for_each (create_document L c) seeds [] ?w1 = (Inr ids, w')"
    and p: "db w' = Some s'" "faults s' = faults s" "loaded_at w' = loaded_at ?w1"
      "\<forall>c'. c' \<noteq> c \<longrightarrow> colls s' c' = colls s c'"
      "map (AList.delete ''_id'') (colls s' c)
         = map (AList.delete ''_id'') (colls s c) @ map (AList.delete ''_id'') seeds"
    by blast
  have "seed_if_empty L c seeds w = (Inr (), w')"
    using c r by (simp add: seed_if_empty_def)
  moreover have "loaded_at w' = loaded_at w" using p(3) by (simp add: log_call_def)
  moreover have "map (AList.delete ''_id'') (colls s' c) = map (AList.delete ''_id'') seeds"
    using p(5) assms(2) by simp
  ultimately show ?thesis using p(1,2,4) by blast
qed

lemma seeds_without_id:
  "map (AList.delete ''_id'') (SEED_METRICS t) = SEED_METRICS t"
  "map (AList.delete ''_id'') SEED_REELS = SEED_REELS"
  by (simp_all add: SEED_METRICS_def SEED_REELS_def AList.delete_eq)

lemma collections_differ: "COL_REEL \<noteq> COL_METRIC"
  by (simp add: COL_REEL_def COL_METRIC_def)

lemma seed_data_empty:
  assumes "db w = Some s" and "colls s COL_METRIC = []" and "colls s COL_REEL = []"
      and "faults s = no_faults"
  shows "\<exists>w' s'. seed_data L w = (Inr (), w') \<and> db w' = Some s'
        \<and> map (AList.delete ''_id'') (colls s' COL_METRIC) = SEED_METRICS (loaded_at w)
        \<and> map (AList.delete ''_id'') (colls s' COL_REEL) = SEED_REELS"
proof -
  have nf: "\<And>op c. faults s op c = None" using assms(4) by (simp add: no_faults_def)
  from seed_if_empty_empty [OF assms(1,2) nf nf, of L "SEED_METRICS (loaded_at w)"]
  obtain w1 s1 where
    r1: "seed_if_empty L COL_METRIC (SEED_METRICS (loaded_at w)) w = (Inr (), w1)"
    and p1: "db w1 = Some s1" "faults s1 = faults s"
      "\<forall>c'. c' \<noteq> COL_METRIC \<longrightarrow> colls s1 c' = colls s c'"
      "map (AList.delete ''_id'') (colls s1 COL_METRIC)
         = map (AList.delete ''_id'') (SEED_METRICS (loaded_at w))"
    by blast
  have e1: "colls s1 COL_REEL = []" using p1(3) assms(3) collections_differ by simp
  have nf1: "\<And>op c. faults s1 op c = None" using p1(2) nf by simp
  from seed_if_empty_empty [OF p1(1) e1 nf1 nf1, of L SEED_REELS]
  obtain w2 s2 where
    r2: "seed_if_empty L COL_REEL SEED_REELS w1 = (Inr (), w2)"
    and p2: "db w2 = Some s2"
      "\<forall>c'. c' \<noteq> COL_REEL \<longrightarrow> colls s2 c' = colls s1 c'"
      "map (AList.delete ''_id'') (colls s2 COL_REEL) = map (AList.delete ''_id'') SEED_REELS"
    by blast
  have "seed_data L w = (Inr (), w2)"
    using assms(1) r1 r2 by (simp add: seed_data_def)
  moreover have "colls s2 COL_METRIC = colls s1 COL_METRIC"
    using p2(2) collections_differ by simp
  ultimately show ?thesis
    using p1(4) p2(1,3) by (auto simp: seeds_without_id)
qed

lemma same_documents_refl: "same_documents w w"
  by (simp add: same_documents_def split: option.splits)

lemma same_documents_trans:
  "same_documents w w1 \<Longrightarrow> same_documents w1 w2 \<Longrightarrow> same_documents w w2"
  by (auto simp: same_documents_def split: option.splits)

lemma create_index_frame:
  "same_documents w (snd (create_index c k w))
   \<and> filter is_create (trace (snd (create_index c k w))) = filter is_create (trace w)
   \<and> loaded_at (snd (create_index c k w)) = loaded_at w"
  by (simp add: create_index_def same_documents_def log_call_def is_create_def Let_def
      split: option.splits)

lemma ensure_indexes_frame:
  "same_documents w (snd (ensure_indexes w))
   \<and> filter is_create (trace (snd (ensure_indexes w))) = filter is_create (trace w)
   \<and> loaded_at (snd (ensure_indexes w)) = loaded_at w"
proof (cases "db w")
  case None
  then show ?thesis by (simp add: ensure_indexes_def same_documents_refl)
next
  case (Some s)
  obtain r1 w1 where c1: "create_index COL_REEL [(''posted_at'', 1)] w = (r1, w1)"
    by (cases "create_index COL_REEL [(''posted_at'', 1)] w")
  obtain r2 w2 where c2: "create_index COL_REEL [(''views'', - 1)] w1 = (r2, w2)"
    by (cases "create_index COL_REEL [(''views'', - 1)] w1")
  obtain r3 w3 where c3: "create_index COL_CONTACT [(''email'', 1)] w2 = (r3, w3)"
    by (cases "create_index COL_CONTACT [(''email'', 1)] w2")
  have f1: "same_documents w w1 \<and> filter is_create (trace w1) = filter is_create (trace w)
      \<and> loaded_at w1 = loaded_at w"
    using create_index_frame [of w COL_REEL "[(''posted_at'', 1)]"] c1 by simp
  have f2: "same_documents w1 w2 \<and> filter is_create (trace w2) = filter is_create (trace w1)
      \<and> loaded_at w2 = loaded_at w1"
    using create_index_frame [of w1 COL_REEL "[(''views'', - 1)]"] c2 by simp
  have f3: "same_documents w2 w3 \<and> filter is_create (trace w3) = filter is_create (trace w2)
      \<and> loaded_at w3 = loaded_at w2"
    using create_index_frame [of w2 COL_CONTACT "[(''email'', 1)]"] c3 by simp
  have "snd (ensure_indexes w) = w1 \<or> snd (ensure_indexes w) = w2 \<or> snd (ensure_indexes w) = w3"
    using Some c1 c2 c3 by (cases r1; cases r2) (simp_all add: ensure_indexes_def)
  then show ?thesis
    using f1 f2 f3 by (auto intro: same_documents_trans)
qed

lemma for_each_preserves:
  assumes "\<And>x w. Q w \<Longrightarrow> Q (snd (body x w))" and "Q w"
  shows "Q (snd (for_each body xs items w))"
  using assms(2)
proof (induction xs arbitrary: items w)
  case Nil
  then show ?case by simp
next
  case (Cons x xs)
  obtain r w1 where b: "body x w = (r, w1)" by (cases "body x w")
  have q1: "Q w1" using assms(1) [OF Cons.prems, of x] b by simp
  show ?case
  proof (cases r)
    case (Inl e)
    with b q1 show ?thesis by simp
  next
    case (Inr y)
    have "Q (snd (for_each body xs (items @ [y]) w1))" using q1 by (rule Cons.IH)
    with b Inr show ?thesis by simp
  qed
qed

lemma create_document_other:
  assumes "c' \<noteq> c" and "\<exists>s. db w = Some s \<and> colls s c' = X"
  shows "\<exists>s. db (snd (create_document L c d w)) = Some s \<and> colls s c' = X"
  using assms by (auto simp: create_document_def log_call_def Let_def split: option.splits)

lemma seed_if_empty_other:
  assumes "c' \<noteq> c" and "db w = Some s"
  shows "\<exists>s'. db (snd (seed_if_empty L c seeds w)) = Some s' \<and> colls s' c' = colls s c'"
proof -
  let ?Q = "\<lambda>v. \<exists>s'. db v = Some s' \<and> colls s' c' = colls s c'"
  let ?w1 = "log_call (CountDocuments c []) w"
  have q1: "?Q ?w1" using assms(2) by (simp add: log_call_db)
  have loop: "?Q (snd (for_each (create_document L c) seeds [] ?w1))"
    by (rule for_each_preserves [where Q = ?Q])
      (rule create_document_other [OF assms(1)], assumption, rule q1)
  obtain r w2 where f: "for_each (create_document L c) seeds [] ?w1 = (r, w2)"
    by (cases "for_each (create_document L c) seeds [] ?w1")
  with loop have q2: "?Q w2" by simp
  have "snd (seed_if_empty L c seeds w) = ?w1 \<or> snd (seed_if_empty L c seeds w) = w2"
    using assms(2) f
    by (cases r) (simp_all add: seed_if_empty_def count_documents_connected split: option.splits)
  with q1 q2 show ?thesis by auto
qed

text \<open>
  C2. On a store whose metric and reel collections are not empty, \<open>seed_data\<close> makes no
  insert and leaves the store as it is; run twice on an empty store without faults, the
  second run changes nothing and each collection holds exactly the seed records, once.
\<close>

theorem seed_data_idempotent:
  "(db w = Some s \<and> colls s COL_METRIC \<noteq> [] \<and> colls s COL_REEL \<noteq> []
      \<longrightarrow> db (snd (seed_data L w)) = Some s
          \<and> filter is_create (trace (snd (seed_data L w))) = filter is_create (trace w))
   \<and> (db w = Some s \<and> colls s COL_METRIC = [] \<and> colls s COL_REEL = [] \<and> faults s = no_faults
      \<longrightarrow> (\<exists>s'. db (snd (seed_data L w)) = Some s'
            \<and> db (snd (seed_data L (snd (seed_data L w)))) = Some s'
            \<and> map (AList.delete ''_id'') (colls s' COL_METRIC) = SEED_METRICS (loaded_at w)
            \<and> map (AList.delete ''_id'') (colls s' COL_REEL) = SEED_REELS))"
proof -
  have once: "db w = Some s \<and> colls s COL_METRIC \<noteq> [] \<and> colls s COL_REEL \<noteq> []
      \<longrightarrow> db (snd (seed_data L w)) = Some s
          \<and> filter is_create (trace (snd (seed_data L w))) = filter is_create (trace w)"
    using seed_data_nonempty [of w s L] by simp
  have twice: "db w = Some s \<and> colls s COL_METRIC = [] \<and> colls s COL_REEL = [] \<and> faults s = no_faults
      \<longrightarrow> (\<exists>s'. db (snd (seed_data L w)) = Some s'
            \<and> db (snd (seed_data L (snd (seed_data L w)))) = Some s'
            \<and> map (AList.delete ''_id'') (colls s' COL_METRIC) = SEED_METRICS (loaded_at w)
            \<and> map (AList.delete ''_id'') (colls s' COL_REEL) = SEED_REELS)"
  proof (rule impI)
    assume a: "db w = Some s \<and> colls s COL_METRIC = [] \<and> colls s COL_REEL = [] \<and> faults s = no_faults"
    from seed_data_empty [of w s L] a
    obtain w' s' where r: "seed_data L w = (Inr (), w')" and d: "db w' = Some s'"
      and m: "map (AList.delete ''_id'') (colls s' COL_METRIC) = SEED_METRICS (loaded_at w)"
      and e: "map (AList.delete ''_id'') (colls s' COL_REEL) = SEED_REELS"
      by blast
    from m have "colls s' COL_METRIC \<noteq> []" by (auto simp: SEED_METRICS_def)
    moreover from e have "colls s' COL_REEL \<noteq> []" by (auto simp: SEED_REELS_def)
    ultimately have "db (snd (seed_data L w')) = Some s'"
      using seed_data_nonempty [OF d, of L] by simp
    with r d m e show "\<exists>s'. db (snd (seed_data L w)) = Some s'
            \<and> db (snd (seed_data L (snd (seed_data L w)))) = Some s'
            \<and> map (AList.delete ''_id'') (colls s' COL_METRIC) = SEED_METRICS (loaded_at w)
            \<and> map (AList.delete ''_id'') (colls s' COL_REEL) = SEED_REELS"
      by simp
  qed
  from once twice show ?thesis by (rule conjI)
qed

theorem seed_data_idempotent_witness:
  "db (connected_to seeded_store) = Some seeded_store
   \<and> colls seeded_store COL_METRIC \<noteq> [] \<and> colls seeded_store COL_REEL \<noteq> []
   \<and> db (snd (seed_data typed_lib (connected_to seeded_store))) = Some seeded_store
   \<and> filter is_create (trace (snd (seed_data typed_lib (connected_to seeded_store)))) = []
   \<and> db (connected_to empty_store) = Some empty_store
   \<and> colls empty_store COL_METRIC = [] \<and> colls empty_store COL_REEL = []
   \<and> faults empty_store = no_faults
   \<and> (\<exists>s'. db (snd (seed_data typed_lib (connected_to empty_store))) = Some s'
         \<and> db (snd (seed_data typed_lib (snd (seed_data typed_lib (connected_to empty_store))))) = Some s'
         \<and> map (AList.delete ''_id'') (colls s' COL_METRIC) = SEED_METRICS 100
         \<and> map (AList.delete ''_id'') (colls s' COL_REEL) = SEED_REELS)"
proof -
  have d1: "db (connected_to seeded_store) = Some seeded_store"
    and d2: "db (connected_to empty_store) = Some empty_store"
    by (simp_all add: connected_to_def)
  have n: "colls seeded_store COL_METRIC \<noteq> []" "colls seeded_store COL_REEL \<noteq> []"
    by (simp_all add: seeded_store_def SEED_METRICS_def SEED_REELS_def collections_differ)
  have e: "colls empty_store COL_METRIC = []" "colls empty_store COL_REEL = []"
    "faults empty_store = no_faults"
    by (simp_all add: empty_store_def)
  have t: "trace (connected_to seeded_store) = []" "loaded_at (connected_to empty_store) = 100"
    by (simp_all add: connected_to_def)
  from seed_data_idempotent [of "connected_to seeded_store" seeded_store typed_lib, THEN conjunct1]
    d1 n t
  have a: "db (snd (seed_data typed_lib (connected_to seeded_store))) = Some seeded_store
      \<and> filter is_create (trace (snd (seed_data typed_lib (connected_to seeded_store)))) = []"
    by simp
  from seed_data_idempotent [of "connected_to empty_store" empty_store typed_lib, THEN conjunct2]
    d2 e t
  have b: "\<exists>s'. db (snd (seed_data typed_lib (connected_to empty_store))) = Some s'
         \<and> db (snd (seed_data typed_lib (snd (seed_data typed_lib (connected_to empty_store))))) = Some s'
         \<and> map (AList.delete ''_id'') (colls s' COL_METRIC) = SEED_METRICS 100
         \<and> map (AList.delete ''_id'') (colls s' COL_REEL) = SEED_REELS"
    by simp
  from d1 d2 n e a b show ?thesis by simp
qed

text \<open>
  C3, as stated, fails: the two startup steps share one \<^verbatim>\<open>try\<close>. When the first index
  creation raises, nothing is counted or inserted and the metric collection stays empty,
  although inserts would succeed; when the insert of the metric seed raises, the reel
  collection stays empty, although a healthy store receives the two seed reels.
\<close>

theorem startup_steps_not_independent:
  "fst (ensure_indexes (connected_to (empty_store\<lparr>faults := index_fault\<rparr>)))
     = Inl (StoreError ''index build failed'')
   \<and> faults (empty_store\<lparr>faults := index_fault\<rparr>) OpInsert COL_METRIC = None
   \<and> trace (snd (on_startup typed_lib (connected_to (empty_store\<lparr>faults := index_fault\<rparr>))))
       = [CreateIndex ''reel'' [(''posted_at'', 1)]]
   \<and> map_option (\<lambda>s. colls s COL_METRIC)
        (db (snd (on_startup typed_lib (connected_to (empty_store\<lparr>faults := index_fault\<rparr>)))))
       = Some []
   \<and> faults (empty_store\<lparr>faults := metric_insert_fault\<rparr>) OpInsert COL_REEL = None
   \<and> map_option (\<lambda>s. colls s COL_REEL)
        (db (snd (on_startup typed_lib (connected_to (empty_store\<lparr>faults := metric_insert_fault\<rparr>)))))
       = Some []
   \<and> map_option (\<lambda>s. length (colls s COL_REEL))
        (db (snd (on_startup typed_lib (connected_to empty_store))))
       = Some 2"
  by code_simp

text \<open>
  C3, amended. Startup never raises. An error while ensuring the indexes ends the startup
  there: no document is counted or inserted. An error while seeding the metric collection
  ends the startup there: the reel collection is left as it was. With the store
  unconfigured the startup does nothing.
\<close>

theorem startup_single_handler:
  "fst (on_startup L w) = Inr ()
   \<and> (isl (fst (ensure_indexes w))
      \<longrightarrow> snd (on_startup L w) = snd (ensure_indexes w)
          \<and> same_documents w (snd (on_startup L w))
          \<and> filter is_create (trace (snd (on_startup L w))) = filter is_create (trace w))
   \<and> (db w = Some s \<and> \<not> isl (fst (ensure_indexes w))
        \<and> isl (fst (seed_if_empty L COL_METRIC (SEED_METRICS (loaded_at w)) (snd (ensure_indexes w))))
      \<longrightarrow> snd (on_startup L w)
            = snd (seed_if_empty L COL_METRIC (SEED_METRICS (loaded_at w)) (snd (ensure_indexes w)))
          \<and> (\<exists>s'. db (snd (on_startup L w)) = Some s' \<and> colls s' COL_REEL = colls s COL_REEL))
   \<and> (db w = None \<longrightarrow> snd (on_startup L w) = w)"
proof -
  obtain r1 w1 where e: "ensure_indexes w = (r1, w1)" by (cases "ensure_indexes w")
  obtain r2 w2 where sd: "seed_data L w1 = (r2, w2)" by (cases "seed_data L w1")
  have fr: "same_documents w w1" "filter is_create (trace w1) = filter is_create (trace w)"
    "loaded_at w1 = loaded_at w"
    using ensure_indexes_frame [of w] e by simp_all
  have never: "fst (on_startup L w) = Inr ()"
    using e sd by (cases r1; cases r2) (simp_all add: on_startup_def)
  have idx: "isl (fst (ensure_indexes w))
      \<longrightarrow> snd (on_startup L w) = snd (ensure_indexes w)
          \<and> same_documents w (snd (on_startup L w))
          \<and> filter is_create (trace (snd (on_startup L w))) = filter is_create (trace w)"
    using e fr by (cases r1) (simp_all add: on_startup_def)
  have met: "db w = Some s \<and> \<not> isl (fst (ensure_indexes w))
        \<and> isl (fst (seed_if_empty L COL_METRIC (SEED_METRICS (loaded_at w)) (snd (ensure_indexes w))))
      \<longrightarrow> snd (on_startup L w)
            = snd (seed_if_empty L COL_METRIC (SEED_METRICS (loaded_at w)) (snd (ensure_indexes w)))
          \<and> (\<exists>s'. db (snd (on_startup L w)) = Some s' \<and> colls s' COL_REEL = colls s COL_REEL)"
  proof (rule impI)
    assume a: "db w = Some s \<and> \<not> isl (fst (ensure_indexes w))
        \<and> isl (fst (seed_if_empty L COL_METRIC (SEED_METRICS (loaded_at w)) (snd (ensure_indexes w))))"
    obtain r3 w3 where m: "seed_if_empty L COL_METRIC (SEED_METRICS (loaded_at w)) w1 = (r3, w3)"
      by (cases "seed_if_empty L COL_METRIC (SEED_METRICS (loaded_at w)) w1")
    from a e m obtain x where r3: "r3 = Inl x" by (cases r3) auto
    from a e obtain u where r1: "r1 = Inr u" by (cases r1) auto
    from a fr(1) obtain s1 where d1: "db w1 = Some s1" and c1: "colls s1 = colls s"
      by (auto simp: same_documents_def split: option.splits)
    have "seed_data L w1 = (Inl x, w3)"
      using d1 m r3 fr(3) by (simp add: seed_data_def)
    then have o: "snd (on_startup L w) = w3"
      using e r1 by (simp add: on_startup_def)
    from seed_if_empty_other [OF collections_differ d1, of L "SEED_METRICS (loaded_at w)"] m
    obtain s' where "db w3 = Some s'" "colls s' COL_REEL = colls s1 COL_REEL" by auto
    with o e m c1 show "snd (on_startup L w)
            = snd (seed_if_empty L COL_METRIC (SEED_METRICS (loaded_at w)) (snd (ensure_indexes w)))
          \<and> (\<exists>s'. db (snd (on_startup L w)) = Some s' \<and> colls s' COL_REEL = colls s COL_REEL)"
      by simp
  qed
  have unc: "db w = None \<longrightarrow> snd (on_startup L w) = w"
    by (simp add: on_startup_def ensure_indexes_def seed_data_def)
  from never idx met unc show ?thesis by blast
qed

theorem startup_single_handler_witness:
  "fst (on_startup typed_lib (connected_to (empty_store\<lparr>faults := index_fault\<rparr>))) = Inr ()
   \<and> isl (fst (ensure_indexes (connected_to (empty_store\<lparr>faults := index_fault\<rparr>))))
   \<and> snd (on_startup typed_lib (connected_to (empty_store\<lparr>faults := index_fault\<rparr>)))
       = snd (ensure_indexes (connected_to (empty_store\<lparr>faults := index_fault\<rparr>)))
   \<and> same_documents (connected_to (empty_store\<lparr>faults := index_fault\<rparr>))
        (snd (on_startup typed_lib (connected_to (empty_store\<lparr>faults := index_fault\<rparr>))))
   \<and> filter is_create
        (trace (snd (on_startup typed_lib (connected_to (empty_store\<lparr>faults := index_fault\<rparr>))))) = []
   \<and> db (connected_to (empty_store\<lparr>faults := metric_insert_fault\<rparr>))
       = Some (empty_store\<lparr>faults := metric_insert_fault\<rparr>)
   \<and> \<not> isl (fst (ensure_indexes (connected_to (empty_store\<lparr>faults := metric_insert_fault\<rparr>))))
   \<and> isl (fst (seed_if_empty typed_lib COL_METRIC (SEED_METRICS 100)
              (snd (ensure_indexes (connected_to (empty_store\<lparr>faults := metric_insert_fault\<rparr>))))))
   \<and> (\<exists>s'. db (snd (on_startup typed_lib (connected_to (empty_store\<lparr>faults := metric_insert_fault\<rparr>))))
             = Some s'
         \<and> colls s' COL_REEL = [])
   \<and> db (unconfigured 0) = None
   \<and> snd (on_startup typed_lib (unconfigured 0)) = unconfigured 0"
proof -
  let ?w1 = "connected_to (empty_store\<lparr>faults := index_fault\<rparr>)"
  let ?s2 = "empty_store\<lparr>faults := metric_insert_fault\<rparr>"
  let ?w2 = "connected_to ?s2"
  have i1: "isl (fst (ensure_indexes ?w1))" by code_simp
  have t1: "filter is_create (trace ?w1) = []" by (simp add: connected_to_def)
  have d2: "db ?w2 = Some ?s2" by (simp add: connected_to_def)
  have l2: "loaded_at ?w2 = 100" by (simp add: connected_to_def)
  have c2: "colls ?s2 COL_REEL = []" by (simp add: empty_store_def)
  have i2: "\<not> isl (fst (ensure_indexes ?w2))" by code_simp
  have m2: "isl (fst (seed_if_empty typed_lib COL_METRIC (SEED_METRICS 100) (snd (ensure_indexes ?w2))))"
    by code_simp
  have d3: "db (unconfigured 0) = None" by (simp add: unconfigured_def)
  note a = startup_single_handler [of typed_lib ?w1 ?s2]
  note b = startup_single_handler [of typed_lib ?w2 ?s2]
  note c = startup_single_handler [of typed_lib "unconfigured 0" ?s2]
  have A1: "fst (on_startup typed_lib ?w1) = Inr ()" using a by blast
  have A2: "snd (on_startup typed_lib ?w1) = snd (ensure_indexes ?w1)" using a i1 by blast
  have A3: "same_documents ?w1 (snd (on_startup typed_lib ?w1))" using a i1 by blast
  have "filter is_create (trace (snd (on_startup typed_lib ?w1))) = filter is_create (trace ?w1)"
    using a i1 by blast
  then have A4: "filter is_create (trace (snd (on_startup typed_lib ?w1))) = []"
    using t1 by (rule trans)
  have p2: "db ?w2 = Some ?s2 \<and> \<not> isl (fst (ensure_indexes ?w2))
      \<and> isl (fst (seed_if_empty typed_lib COL_METRIC (SEED_METRICS (loaded_at ?w2))
                 (snd (ensure_indexes ?w2))))"
    using d2 i2 m2 l2 by simp
  from b [THEN conjunct2, THEN conjunct2, THEN conjunct1] p2
  have "snd (on_startup typed_lib ?w2)
          = snd (seed_if_empty typed_lib COL_METRIC (SEED_METRICS (loaded_at ?w2))
                  (snd (ensure_indexes ?w2)))
        \<and> (\<exists>s'. db (snd (on_startup typed_lib ?w2)) = Some s'
              \<and> colls s' COL_REEL = colls ?s2 COL_REEL)"
    by (rule mp)
  then obtain s' where "db (snd (on_startup typed_lib ?w2)) = Some s'"
    and "colls s' COL_REEL = colls ?s2 COL_REEL"
    by blast
  with c2 have B: "\<exists>s'. db (snd (on_startup typed_lib ?w2)) = Some s' \<and> colls s' COL_REEL = []"
    by simp
  from c d3 have C: "snd (on_startup typed_lib (unconfigured 0)) = unconfigured 0"
    by blast
  from A1 A2 A3 A4 B C i1 d2 i2 m2 d3 show ?thesis by blast
qed

end
